theory Spec2Isabelle
  imports Main
begin

section \<open>Values, records and exceptions\<close>

text \<open>
  The data manager of \<^verbatim>\<open>cm4/data/data.py\<close> (class \<^verbatim>\<open>Data\<close>) is glue between a
  configuration section, a metadata store and a dictionary of storage providers.
  Python values that the code tests for truth (\<^verbatim>\<open>if storage_path:\<close>,
  \<^verbatim>\<open>provider or 'default'\<close>) are \<^verbatim>\<open>None\<close>, a string, or a nested configuration
  section. Strings are ASCII here, so a \<open>char\<close> is one Python character.
\<close>

datatype pyval = PyNone | PyStr string | PyDict "(string \<times> pyval) list"

text \<open>Python truthiness: \<^verbatim>\<open>None\<close>, \<^verbatim>\<open>''\<close> and \<^verbatim>\<open>{}\<close> are false.\<close>

fun truthy :: "pyval \<Rightarrow> bool" where
  "truthy PyNone = False"
| "truthy (PyStr s) = (s \<noteq> [])"
| "truthy (PyDict kvs) = (kvs \<noteq> [])"

text \<open>\<^verbatim>\<open>a or b\<close>\<close>

definition py_or :: "pyval \<Rightarrow> pyval \<Rightarrow> pyval" where
  "py_or a b = (if truthy a then a else b)"

text \<open>
  The metadata record (\<^verbatim>\<open>f.name, f.service, f.size, f.url\<close> in \<^verbatim>\<open>ls\<close>); the
  field \<^verbatim>\<open>size\<close> is written \<open>size_f\<close>.
\<close>

record cloud_file =
  name :: string
  service :: string
  size_f :: int
  url :: string

text \<open>
  The exceptions the code can end with. \<open>AttributeError a\<close> is the access of
  attribute \<open>a\<close> on an object that has none (\<^verbatim>\<open>None.list_files\<close>), \<open>KeyError k\<close> a
  dictionary subscript with a missing key, \<open>TypeError\<close> a subscript with an
  unhashable key, \<open>Exception m\<close> the explicit \<^verbatim>\<open>raise Exception(m)\<close> of
  \<^verbatim>\<open>delete\<close>, and \<open>StorageError m\<close> stands for whatever a storage provider raises.
\<close>

datatype py_exn =
    AttributeError string
  | KeyError pyval
  | TypeError
  | SystemExit
  | Exception string
  | StorageError string

section \<open>The collaborators\<close>

subsection \<open>Configuration\<close>

text \<open>
  Modelled from the spec: \<^verbatim>\<open>Config.get\<close> (\<^verbatim>\<open>cm4.configuration.config\<close> is not
  under src/). A configuration section is a table from the recognised dotted keys
  to values; a key that is absent reads as \<^verbatim>\<open>None\<close>.
\<close>

definition conf_get :: "(string \<times> pyval) list \<Rightarrow> string \<Rightarrow> pyval" where
  "conf_get c k = (case map_of c k of None \<Rightarrow> PyNone | Some v \<Rightarrow> v)"

subsection \<open>Metadata store\<close>

text \<open>
  Modelled from the spec: the Metadata Store (\<^verbatim>\<open>cm4.data.db.LocalDBProvider\<close> is
  not under src/), "one record per tracked file", a keyed table kept under a
  folder. The object holds the folder it was made with and the records.
\<close>

record LocalDBProvider =
  db_path :: pyval
  files :: "cloud_file list"

text \<open>
  Modelled from the spec: \<^verbatim>\<open>LocalDBProvider.list_files\<close>, "returns all records,
  order unspecified (insertion order acceptable)".
\<close>

definition db_list_files :: "LocalDBProvider \<Rightarrow> cloud_file list" where
  "db_list_files d = files d"

text \<open>
  Modelled from the spec: \<^verbatim>\<open>LocalDBProvider.add\<close>, "inserts or upserts by name"; a
  record of the same name is overwritten in its place.
\<close>

fun upsert :: "cloud_file \<Rightarrow> cloud_file list \<Rightarrow> cloud_file list" where
  "upsert f [] = [f]"
| "upsert f (g # gs) = (if name g = name f then f # gs else g # upsert f gs)"

definition db_add :: "LocalDBProvider \<Rightarrow> cloud_file \<Rightarrow> LocalDBProvider" where
  "db_add d f = d\<lparr>files := upsert f (files d)\<rparr>"

text \<open>
  Modelled from the spec: \<^verbatim>\<open>LocalDBProvider.get\<close>, "lookup by unique name; returns
  an explicit not found signal rather than throwing" (\<^verbatim>\<open>None\<close>).
\<close>

definition db_get :: "LocalDBProvider \<Rightarrow> string \<Rightarrow> cloud_file option" where
  "db_get d n = find (\<lambda>f. name f = n) (files d)"

text \<open>
  Modelled from the spec: \<^verbatim>\<open>LocalDBProvider.delete\<close>, "removes the entry"; silent
  when there is none.
\<close>

definition db_delete :: "LocalDBProvider \<Rightarrow> cloud_file \<Rightarrow> LocalDBProvider" where
  "db_delete d f = d\<lparr>files := filter (\<lambda>g. name g \<noteq> name f) (files d)\<rparr>"

subsection \<open>Storage providers\<close>

text \<open>
  The two provider objects that \<^verbatim>\<open>config\<close> constructs, with the constructor
  arguments it passes. What their methods \<^verbatim>\<open>add\<close>, \<^verbatim>\<open>get\<close> and \<^verbatim>\<open>delete\<close> do is
  outside \<^verbatim>\<open>data.py\<close>: it is a parameter of every operation below, a
  \<open>storage_ops\<close> acting on a world \<open>'w\<close> (the file systems and the cloud), each
  call returning a value or the exception it raised, and the new world.
\<close>

datatype storage_provider =
    LocalStorageProvider pyval
  | AzureStorageProvider pyval pyval pyval

record 'w storage_ops =
  provider_add :: "storage_provider \<Rightarrow> string \<Rightarrow> 'w \<Rightarrow> (py_exn + cloud_file) \<times> 'w"
  provider_get :: "storage_provider \<Rightarrow> cloud_file \<Rightarrow> pyval \<Rightarrow> 'w \<Rightarrow> (py_exn + unit) \<times> 'w"
  provider_delete :: "storage_provider \<Rightarrow> cloud_file \<Rightarrow> 'w \<Rightarrow> (py_exn + unit) \<times> 'w"

text \<open>
  Modelled from the spec: the identifier of a backend variant
  (\<^verbatim>\<open>cm4.data.storage.*\<close> is not under src/); it is the key under which
  \<^verbatim>\<open>config\<close> registers the variant.
\<close>

fun backend_id :: "storage_provider \<Rightarrow> string" where
  "backend_id (LocalStorageProvider _) = ''local''"
| "backend_id (AzureStorageProvider _ _ _) = ''azure''"

text \<open>
  Modelled from the spec: the contract of \<^verbatim>\<open>upload\<close>, the providers' \<^verbatim>\<open>add\<close>
  (\<^verbatim>\<open>cm4.data.storage.*\<close> is not under src/): a successful upload "returns a
  fully populated record with backend set to this variant's identifier".
\<close>

definition upload_sets_backend :: "'w storage_ops \<Rightarrow> bool" where
  "upload_sets_backend B \<longleftrightarrow>
     (\<forall>p path w f w'. provider_add B p path w = (Inr f, w') \<longrightarrow> service f = backend_id p)"

section \<open>The data manager\<close>

text \<open>
  Calls to the collaborators are logged in order, so that "before" and "no
  backend call" can be stated.
\<close>

datatype call =
    DbListFiles
  | DbAdd cloud_file
  | DbGet string
  | DbDelete cloud_file
  | StorageAdd storage_provider string
  | StorageGet storage_provider cloud_file pyval
  | StorageDelete storage_provider cloud_file

text \<open>
  The object's fields \<^verbatim>\<open>_db\<close>, \<^verbatim>\<open>_conf\<close>, \<^verbatim>\<open>_providers\<close>, together with the world
  the providers act on, the lines printed so far, and the log of calls.
\<close>

record 'w data =
  db :: "LocalDBProvider option"
  conf :: "(string \<times> pyval) list"
  providers :: "string \<rightharpoonup> storage_provider"
  world :: 'w
  stdout :: "string list"
  calls :: "call list"

text \<open>\<^verbatim>\<open>__init__\<close>\<close>

definition Data_init :: "'w \<Rightarrow> 'w data" where
  "Data_init w = \<lparr>db = None, conf = [], providers = Map.empty, world = w,
     stdout = [], calls = []\<rparr>"

text \<open>\<^verbatim>\<open>self._providers[k]\<close>: a missing key raises \<^verbatim>\<open>KeyError\<close>.\<close>

fun providers_getitem :: "(string \<rightharpoonup> storage_provider) \<Rightarrow> pyval \<Rightarrow> py_exn + storage_provider" where
  "providers_getitem m (PyStr k) = (case m k of None \<Rightarrow> Inl (KeyError (PyStr k)) | Some p \<Rightarrow> Inr p)"
| "providers_getitem m PyNone = Inl (KeyError PyNone)"
| "providers_getitem m (PyDict kvs) = Inl TypeError"

subsection \<open>config\<close>

text \<open>
  \<^verbatim>\<open>config\<close> is four steps in a row, each under its own comment in the source.
  Lines 39 to 44, "Set DB provider". The constructor \<^verbatim>\<open>LocalDBProvider(db_path)\<close>
  opens the table kept under the folder: \<open>stored\<close> are the records that the
  folder holds.
\<close>

definition config_db :: "(string \<times> pyval) list \<Rightarrow> cloud_file list \<Rightarrow> 'w data \<Rightarrow> 'w data" where
  "config_db c stored s =
     (let db_provider = conf_get c ''default.db''
      in if db_provider = PyStr ''local''
         then (let db_path = conf_get c ''db.local.CMDATA_DB_FOLDER''
               in s\<lparr>db := Some \<lparr>db_path = db_path, files = stored\<rparr>\<rparr>)
         else s)"

text \<open>Lines 46 to 49, "Check for local storage provider".\<close>

definition config_local :: "(string \<times> pyval) list \<Rightarrow> 'w data \<Rightarrow> 'w data" where
  "config_local c s =
     (let storage_path = conf_get c ''service.local.CMDATA_STORAGE_FOLDER''
      in if truthy storage_path
         then s\<lparr>providers := (providers s)(''local'' \<mapsto> LocalStorageProvider storage_path)\<rparr>
         else s)"

text \<open>
  Lines 51 to 58, "Check for Azure provider". A section that is a string has no
  \<^verbatim>\<open>get\<close>.
\<close>

definition config_azure :: "(string \<times> pyval) list \<Rightarrow> 'w data \<Rightarrow> (py_exn + unit) \<times> 'w data" where
  "config_azure c s =
     (let az_conf = conf_get c ''service.azure''
      in if truthy az_conf then
           (case az_conf of
              PyDict d \<Rightarrow>
                (let az_act = conf_get d ''credentials.AZURE_STORAGE_ACCOUNT'';
                     az_key = conf_get d ''credentials.AZURE_STORAGE_KEY'';
                     az_container = conf_get d ''container''
                 in if truthy az_act \<and> truthy az_key
                    then (Inr (), s\<lparr>providers := (providers s)(''azure'' \<mapsto>
                            AzureStorageProvider az_act az_key az_container)\<rparr>)
                    else (Inr (), s))
            | _ \<Rightarrow> (Inl (AttributeError ''get''), s))
         else (Inr (), s))"

text \<open>Lines 60 to 62, "Set a default storage provider".\<close>

definition config_default :: "(string \<times> pyval) list \<Rightarrow> 'w data \<Rightarrow> (py_exn + unit) \<times> 'w data" where
  "config_default c s =
     (let default_storage_provider = conf_get c ''default.service''
      in case providers_getitem (providers s) default_storage_provider of
           Inl e \<Rightarrow> (Inl e, s)
         | Inr p \<Rightarrow> (Inr (), s\<lparr>providers := (providers s)(''default'' \<mapsto> p)\<rparr>))"

text \<open>
  \<^verbatim>\<open>config\<close>, from the loaded section \<open>c\<close> (\<^verbatim>\<open>Config(config_path).get("data")\<close>).
  The object is returned also when an exception ends the call, since the
  assignments made before it stay.
\<close>

definition config :: "(string \<times> pyval) list \<Rightarrow> cloud_file list \<Rightarrow> 'w data \<Rightarrow> (py_exn + unit) \<times> 'w data" where
  "config c stored s =
     (case config_azure c (config_local c (config_db c stored (s\<lparr>conf := c\<rparr>))) of
        (Inl e, s4) \<Rightarrow> (Inl e, s4)
      | (Inr _, s4) \<Rightarrow> config_default c s4)"

subsection \<open>ls\<close>

text \<open>\<^verbatim>\<open>str(n)\<close> for an integer, and \<^verbatim>\<open>%s\<close> of an argument.\<close>

fun str_nat :: "nat \<Rightarrow> string" where
  "str_nat n = (if n < 10 then [char_of (48 + n)] else str_nat (n div 10) @ [char_of (48 + n mod 10)])"

definition str_int :: "int \<Rightarrow> string" where
  "str_int i = (if i < 0 then CHR ''-'' # str_nat (nat (- i)) else str_nat (nat i))"

datatype fmt_arg = S string | I int

fun fmt_s :: "fmt_arg \<Rightarrow> string" where
  "fmt_s (S s) = s"
| "fmt_s (I i) = str_int i"

text \<open>\<^verbatim>\<open>%-Ns\<close>: left-justified in at least \<open>N\<close> columns, never truncated.\<close>

definition ljust :: "nat \<Rightarrow> string \<Rightarrow> string" where
  "ljust w s = s @ replicate (w - length s) CHR '' ''"

text \<open>The line that \<^verbatim>\<open>_print_row\<close> prints.\<close>

definition print_row_line :: "fmt_arg \<Rightarrow> fmt_arg \<Rightarrow> fmt_arg \<Rightarrow> fmt_arg \<Rightarrow> string" where
  "print_row_line file_name service_a size_a url_a =
     '' '' @ ljust 35 (fmt_s file_name) @ '' '' @ ljust 10 (fmt_s service_a) @ '' '' @
     ljust 10 (fmt_s size_a) @ '' '' @ ljust 50 (fmt_s url_a)"

definition print_row :: "fmt_arg \<Rightarrow> fmt_arg \<Rightarrow> fmt_arg \<Rightarrow> fmt_arg \<Rightarrow> 'w data \<Rightarrow> 'w data" where
  "print_row file_name service_a size_a url_a s =
     s\<lparr>stdout := stdout s @ [print_row_line file_name service_a size_a url_a]\<rparr>"

text \<open>The \<^verbatim>\<open>for f in files\<close> loop of \<^verbatim>\<open>ls\<close>.\<close>

fun print_files :: "cloud_file list \<Rightarrow> 'w data \<Rightarrow> 'w data" where
  "print_files [] s = s"
| "print_files (f # fs) s =
     print_files fs (print_row (S (name f)) (S (service f)) (I (size_f f)) (S (url f)) s)"

definition ls :: "'w data \<Rightarrow> (py_exn + cloud_file list) \<times> 'w data" where
  "ls s =
     (case db s of
        None \<Rightarrow> (Inl (AttributeError ''list_files''), s)
      | Some d \<Rightarrow>
          (let files = db_list_files d;
               s1 = s\<lparr>calls := calls s @ [DbListFiles]\<rparr>;
               s2 = print_row (S ''FILE'') (S ''SERVICE'') (S ''SIZE'') (S ''URL'') s1;
               s3 = print_files files s2
           in (Inr files, s3)))"

subsection \<open>add, get, delete\<close>

definition add :: "'w storage_ops \<Rightarrow> pyval \<Rightarrow> string \<Rightarrow> 'w data \<Rightarrow> (py_exn + cloud_file) \<times> 'w data" where
  "add B provider file_path s =
     (case providers_getitem (providers s) (py_or provider (PyStr ''default'')) of
        Inl e \<Rightarrow> (Inl e, s)
      | Inr p \<Rightarrow>
          (let s1 = s\<lparr>calls := calls s @ [StorageAdd p file_path]\<rparr>
           in case provider_add B p file_path (world s1) of
                (Inl e, w') \<Rightarrow> (Inl e, s1\<lparr>world := w'\<rparr>)
              | (Inr new_cloud_file, w') \<Rightarrow>
                  (let s2 = s1\<lparr>world := w'\<rparr>
                   in case db s2 of
                        None \<Rightarrow> (Inl (AttributeError ''add''), s2)
                      | Some d \<Rightarrow>
                          (Inr new_cloud_file,
                           s2\<lparr>db := Some (db_add d new_cloud_file),
                              calls := calls s2 @ [DbAdd new_cloud_file]\<rparr>))))"

definition get :: "'w storage_ops \<Rightarrow> string \<Rightarrow> pyval \<Rightarrow> 'w data \<Rightarrow> (py_exn + unit) \<times> 'w data" where
  "get B file_name dest_folder s =
     (case db s of
        None \<Rightarrow> (Inl (AttributeError ''get''), s)
      | Some d \<Rightarrow>
          (let s1 = s\<lparr>calls := calls s @ [DbGet file_name]\<rparr>
           in case db_get d file_name of
                None \<Rightarrow>
                  (Inl SystemExit,
                   s1\<lparr>stdout := stdout s1 @
                        [''Requested file not found. Use `ls` to see a list of file names.'']\<rparr>)
              | Some cloud_file \<Rightarrow>
                  (let dest_folder' = py_or dest_folder (PyStr ''.'')
                   in case providers_getitem (providers s1) (PyStr (service cloud_file)) of
                        Inl e \<Rightarrow> (Inl e, s1)
                      | Inr p \<Rightarrow>
                          (let s2 = s1\<lparr>calls := calls s1 @ [StorageGet p cloud_file dest_folder']\<rparr>
                           in case provider_get B p cloud_file dest_folder' (world s2) of
                                (r, w') \<Rightarrow> (r, s2\<lparr>world := w'\<rparr>)))))"

definition delete :: "'w storage_ops \<Rightarrow> string \<Rightarrow> 'w data \<Rightarrow> (py_exn + unit) \<times> 'w data" where
  "delete B file_name s =
     (case db s of
        None \<Rightarrow> (Inl (AttributeError ''get''), s)
      | Some d \<Rightarrow>
          (let s1 = s\<lparr>calls := calls s @ [DbGet file_name]\<rparr>
           in case db_get d file_name of
                None \<Rightarrow> (Inl (Exception (file_name @ '' not found in the database.'')), s1)
              | Some cloud_file \<Rightarrow>
                  (case providers_getitem (providers s1) (PyStr (service cloud_file)) of
                     Inl e \<Rightarrow> (Inl e, s1)
                   | Inr p \<Rightarrow>
                       (let s2 = s1\<lparr>calls := calls s1 @ [StorageDelete p cloud_file]\<rparr>
                        in case provider_delete B p cloud_file (world s2) of
                             (Inl e, w') \<Rightarrow> (Inl e, s2\<lparr>world := w'\<rparr>)
                           | (Inr _, w') \<Rightarrow>
                               (Inr (),
                                s2\<lparr>world := w',
                                   db := Some (db_delete d cloud_file),
                                   calls := calls s2 @ [DbDelete cloud_file]\<rparr>)))))"

section \<open>An example installation\<close>

text \<open>
  A concrete world for evaluating the operations: the world is the list of object
  names the backends hold; an upload of the empty path fails, a download or
  removal of an object that is not there fails.
\<close>

definition demo_ops :: "string list storage_ops" where
  "demo_ops = \<lparr>
     provider_add = (\<lambda>p path w.
        if path = [] then (Inl (StorageError ''no such file''), w)
        else (Inr \<lparr>name = path, service = backend_id p, size_f = 42,
                   url = ''/tmp/store/'' @ path\<rparr>, path # w)),
     provider_get = (\<lambda>p f dest w.
        if name f \<in> set w then (Inr (), w) else (Inl (StorageError ''no such object''), w)),
     provider_delete = (\<lambda>p f w.
        if name f \<in> set w then (Inr (), removeAll (name f) w)
        else (Inl (StorageError ''no such object''), w))\<rparr>"

text \<open>Only the local backend is configured, and it is the default.\<close>

definition demo_conf :: "(string \<times> pyval) list" where
  "demo_conf = [(''default.db'', PyStr ''local''),
     (''db.local.CMDATA_DB_FOLDER'', PyStr ''~/.cloudmesh/db''),
     (''service.local.CMDATA_STORAGE_FOLDER'', PyStr ''/tmp/store''),
     (''default.service'', PyStr ''local'')]"

definition notes_txt :: cloud_file where
  "notes_txt = \<lparr>name = ''notes.txt'', service = ''local'', size_f = 42,
     url = ''/tmp/store/notes.txt''\<rparr>"

text \<open>A record left over from a time when Azure was configured.\<close>

definition report_pdf :: cloud_file where
  "report_pdf = \<lparr>name = ''report.pdf'', service = ''azure'', size_f = 1205,
     url = ''https://acct.blob.core.windows.net/cm/report.pdf''\<rparr>"

definition demo_db :: LocalDBProvider where
  "demo_db = \<lparr>db_path = PyStr ''~/.cloudmesh/db'', files = [notes_txt, report_pdf]\<rparr>"

definition demo_local :: storage_provider where
  "demo_local = LocalStorageProvider (PyStr ''/tmp/store'')"

text \<open>The object after \<^verbatim>\<open>config\<close> with \<open>demo_conf\<close>, in world \<open>w\<close>.\<close>

definition demo_data :: "string list \<Rightarrow> string list data" where
  "demo_data w = \<lparr>db = Some demo_db, conf = demo_conf,
     providers = [''local'' \<mapsto> demo_local, ''default'' \<mapsto> demo_local],
     world = w, stdout = [], calls = []\<rparr>"

text \<open>The same installation without a \<^verbatim>\<open>default.db\<close> entry.\<close>

definition conf_no_db :: "(string \<times> pyval) list" where
  "conf_no_db = [(''service.local.CMDATA_STORAGE_FOLDER'', PyStr ''/tmp/store''),
     (''default.service'', PyStr ''local'')]"

text \<open>Azure named as the default, its credentials missing.\<close>

definition conf_azure_default :: "(string \<times> pyval) list" where
  "conf_azure_default = [(''default.db'', PyStr ''local''),
     (''service.local.CMDATA_STORAGE_FOLDER'', PyStr ''/tmp/store''),
     (''service.azure'', PyDict [(''container'', PyStr ''cm'')]),
     (''default.service'', PyStr ''azure'')]"

text \<open>A store whose one record has a name of 36 characters.\<close>

definition minutes_md :: cloud_file where
  "minutes_md = \<lparr>name = ''minutes-of-the-2018-board-meeting.md'', service = ''local'',
     size_f = 42, url = ''/tmp/store/minutes-of-the-2018-board-meeting.md''\<rparr>"

definition long_name_db :: LocalDBProvider where
  "long_name_db = \<lparr>db_path = PyStr ''~/.cloudmesh/db'', files = [minutes_md]\<rparr>"

definition long_name_data :: "string list data" where
  "long_name_data = \<lparr>db = Some long_name_db,
     conf = demo_conf,
     providers = [''local'' \<mapsto> demo_local, ''default'' \<mapsto> demo_local],
     world = [], stdout = [], calls = []\<rparr>"

section \<open>Evaluating and framing the steps\<close>

lemmas demo_defs = demo_data_def demo_db_def demo_local_def notes_txt_def report_pdf_def
  demo_ops_def demo_conf_def db_get_def

lemmas config_steps = config_def config_db_def config_local_def config_azure_def
  config_default_def

lemma config_demo:
  "config demo_conf [notes_txt, report_pdf] (Data_init w) = (Inr (), demo_data w)"
  by (simp add: config_steps conf_get_def demo_conf_def Data_init_def
      demo_data_def demo_db_def demo_local_def Let_def)

lemma demo_ops_contract: "upload_sets_backend demo_ops"
  by (simp add: upload_sets_backend_def demo_ops_def split: if_splits)

subsection \<open>Printing\<close>

lemma print_files_stdout:
  "stdout (print_files fs s) = stdout s @
     map (\<lambda>f. print_row_line (S (name f)) (S (service f)) (I (size_f f)) (S (url f))) fs"
  by (induction fs arbitrary: s) (simp_all add: print_row_def)

lemma print_files_frame:
  "db (print_files fs s) = db s \<and> calls (print_files fs s) = calls s \<and>
   world (print_files fs s) = world s \<and> providers (print_files fs s) = providers s"
  by (induction fs arbitrary: s) (simp_all add: print_row_def)

lemma ls_db: "db (snd (ls s)) = db s"
  by (simp add: ls_def Let_def print_files_frame print_row_def split: option.splits)

lemma ls_result: "db s = Some d \<Longrightarrow> fst (ls s) = Inr (db_list_files d)"
  by (simp add: ls_def Let_def)

text \<open>A column is as wide as its width, or as its value when that is longer.\<close>

lemma length_ljust: "length (ljust w x) = max w (length x)"
  by (simp add: ljust_def)

lemma length_print_row_line: "109 \<le> length (print_row_line a b c d)"
  by (simp add: print_row_line_def length_ljust)

lemma length_print_row_line_fit:
  assumes "length (fmt_s a) \<le> 35" and "length (fmt_s b) \<le> 10"
    and "length (fmt_s c) \<le> 10" and "length (fmt_s d) \<le> 50"
  shows "length (print_row_line a b c d) = 109"
  using assms by (simp add: print_row_line_def length_ljust)

text \<open>The header and two rows, evaluated.\<close>

lemma header_line:
  "print_row_line (S ''FILE'') (S ''SERVICE'') (S ''SIZE'') (S ''URL'') =
     '' FILE                                SERVICE    SIZE       URL                                               ''"
  by code_simp

lemma notes_line:
  "print_row_line (S (name notes_txt)) (S (service notes_txt)) (I (size_f notes_txt))
     (S (url notes_txt)) =
     '' notes.txt                           local      42         /tmp/store/notes.txt                              ''"
  by code_simp

lemma report_line:
  "print_row_line (S (name report_pdf)) (S (service report_pdf)) (I (size_f report_pdf))
     (S (url report_pdf)) =
     '' report.pdf                          azure      1205       https://acct.blob.core.windows.net/cm/report.pdf  ''"
  by code_simp

lemma minutes_line:
  "print_row_line (S (name minutes_md)) (S (service minutes_md)) (I (size_f minutes_md))
     (S (url minutes_md)) =
     '' minutes-of-the-2018-board-meeting.md local      42         /tmp/store/minutes-of-the-2018-board-meeting.md   ''"
  by code_simp

text \<open>What \<^verbatim>\<open>ls\<close> prints, and when a row is as wide as the header.\<close>

lemma ls_stdout:
  "db s = Some d \<Longrightarrow> stdout (snd (ls s)) = stdout s @
           print_row_line (S ''FILE'') (S ''SERVICE'') (S ''SIZE'') (S ''URL'') #
           map (\<lambda>f. print_row_line (S (name f)) (S (service f)) (I (size_f f)) (S (url f)))
             (db_list_files d)"
  by (simp add: ls_def Let_def print_files_stdout print_row_def)

lemma length_print_row_line_iff:
  "length (print_row_line a b c d) = 109 \<longleftrightarrow>
     length (fmt_s a) \<le> 35 \<and> length (fmt_s b) \<le> 10 \<and>
     length (fmt_s c) \<le> 10 \<and> length (fmt_s d) \<le> 50"
  by (auto simp: print_row_line_def length_ljust)

subsection \<open>The steps of config\<close>

lemma config_db_frame:
  "providers (config_db c stored s) = providers s \<and> world (config_db c stored s) = world s
   \<and> calls (config_db c stored s) = calls s \<and> stdout (config_db c stored s) = stdout s"
  by (simp add: config_db_def Let_def)

lemma config_db_db:
  "db (config_db c stored s) =
     (if conf_get c ''default.db'' = PyStr ''local''
      then Some \<lparr>db_path = conf_get c ''db.local.CMDATA_DB_FOLDER'', files = stored\<rparr>
      else db s)"
  by (simp add: config_db_def Let_def)

lemma config_local_frame:
  "db (config_local c s) = db s \<and> world (config_local c s) = world s
   \<and> calls (config_local c s) = calls s \<and> stdout (config_local c s) = stdout s"
  by (simp add: config_local_def Let_def)

lemma config_local_providers:
  "providers (config_local c s) =
     (if truthy (conf_get c ''service.local.CMDATA_STORAGE_FOLDER'')
      then (providers s)(''local'' \<mapsto>
             LocalStorageProvider (conf_get c ''service.local.CMDATA_STORAGE_FOLDER''))
      else providers s)"
  by (simp add: config_local_def Let_def)

lemma config_azure_frame:
  "db (snd (config_azure c s)) = db s \<and> world (snd (config_azure c s)) = world s
   \<and> calls (snd (config_azure c s)) = calls s \<and> stdout (snd (config_azure c s)) = stdout s"
  by (cases "conf_get c ''service.azure''") (simp_all add: config_azure_def Let_def)

lemma config_azure_providers:
  "providers (snd (config_azure c s)) =
     (case conf_get c ''service.azure'' of
        PyDict d \<Rightarrow>
          if truthy (conf_get d ''credentials.AZURE_STORAGE_ACCOUNT'') \<and>
             truthy (conf_get d ''credentials.AZURE_STORAGE_KEY'')
          then (providers s)(''azure'' \<mapsto> AzureStorageProvider
                 (conf_get d ''credentials.AZURE_STORAGE_ACCOUNT'')
                 (conf_get d ''credentials.AZURE_STORAGE_KEY'') (conf_get d ''container''))
          else providers s
      | _ \<Rightarrow> providers s)"
  by (cases "conf_get c ''service.azure''") (simp_all add: config_azure_def Let_def conf_get_def)

lemma config_azure_result:
  "fst (config_azure c s) = Inr () \<or> fst (config_azure c s) = Inl (AttributeError ''get'')"
  by (cases "conf_get c ''service.azure''") (simp_all add: config_azure_def Let_def)

lemma config_default_frame:
  "db (snd (config_default c s)) = db s \<and> world (snd (config_default c s)) = world s
   \<and> calls (snd (config_default c s)) = calls s \<and> stdout (snd (config_default c s)) = stdout s"
  by (simp add: config_default_def Let_def split: sum.splits)

lemma config_default_providers_other:
  "k \<noteq> ''default'' \<Longrightarrow> providers (snd (config_default c s)) k = providers s k"
  by (simp add: config_default_def Let_def split: sum.splits)

text \<open>The shape of \<^verbatim>\<open>config\<close> with the outcome of the Azure step named.\<close>

lemma config_by_azure:
  "config c stored s =
     (case fst (config_azure c (config_local c (config_db c stored (s\<lparr>conf := c\<rparr>)))) of
        Inl e \<Rightarrow> (Inl e, snd (config_azure c (config_local c (config_db c stored (s\<lparr>conf := c\<rparr>)))))
      | Inr u \<Rightarrow> config_default c
                 (snd (config_azure c (config_local c (config_db c stored (s\<lparr>conf := c\<rparr>))))))"
  by (cases "config_azure c (config_local c (config_db c stored (s\<lparr>conf := c\<rparr>)))")
     (simp add: config_def split: sum.splits)

lemma config_providers_other:
  assumes "k \<noteq> ''default''"
  shows "providers (snd (config c stored s)) k =
     providers (snd (config_azure c (config_local c (config_db c stored (s\<lparr>conf := c\<rparr>))))) k"
  unfolding config_by_azure using assms
  by (cases "fst (config_azure c (config_local c (config_db c stored (s\<lparr>conf := c\<rparr>))))")
     (simp_all add: config_default_providers_other)

lemma config_db_after:
  "db (snd (config c stored s)) =
     (if conf_get c ''default.db'' = PyStr ''local''
      then Some \<lparr>db_path = conf_get c ''db.local.CMDATA_DB_FOLDER'', files = stored\<rparr>
      else db s)"
  unfolding config_by_azure
  by (cases "fst (config_azure c (config_local c (config_db c stored (s\<lparr>conf := c\<rparr>))))")
     (simp_all add: config_default_frame config_azure_frame config_local_frame config_db_db)

text \<open>
  On a fresh object the registry that the local and the Azure step build holds
  each provider under its own identifier.
\<close>

lemma config_registry_ids:
  assumes "providers (snd (config_azure c (config_local c
             (config_db c stored ((Data_init w)\<lparr>conf := c\<rparr>))))) k = Some p"
  shows "backend_id p = k"
proof -
  have init: "providers (config_db c stored ((Data_init w)\<lparr>conf := c\<rparr>)) = Map.empty"
    by (simp add: config_db_frame Data_init_def)
  from assms show ?thesis
    by (cases "conf_get c ''service.azure''")
       (auto simp: config_azure_providers config_local_providers init split: if_splits)
qed

lemma providers_getitem_Inr:
  "providers_getitem m v = Inr p \<Longrightarrow> \<exists>k. v = PyStr k \<and> m k = Some p"
  by (cases v) (auto split: option.splits)

lemma config_default_Inr:
  assumes "config_default c s4 = (Inr u, s)"
  shows "\<exists>k p. conf_get c ''default.service'' = PyStr k \<and> providers s4 k = Some p
           \<and> s = s4\<lparr>providers := (providers s4)(''default'' \<mapsto> p)\<rparr>"
proof (cases "providers_getitem (providers s4) (conf_get c ''default.service'')")
  case (Inl e)
  with assms show ?thesis by (simp add: config_default_def)
next
  case (Inr p)
  from providers_getitem_Inr [OF Inr] obtain k
    where "conf_get c ''default.service'' = PyStr k" and "providers s4 k = Some p" by blast
  moreover from assms Inr have "s = s4\<lparr>providers := (providers s4)(''default'' \<mapsto> p)\<rparr>"
    by (simp add: config_default_def)
  ultimately show ?thesis by blast
qed

subsection \<open>A successful add\<close>

lemma add_Inr:
  assumes "add B provider path s = (Inr f, s')"
  shows "\<exists>p w' d. providers_getitem (providers s) (py_or provider (PyStr ''default'')) = Inr p
           \<and> provider_add B p path (world s) = (Inr f, w') \<and> db s = Some d
           \<and> calls s' = calls s @ [StorageAdd p path, DbAdd f]"
proof (cases "providers_getitem (providers s) (py_or provider (PyStr ''default''))")
  case (Inl e)
  with assms show ?thesis by (simp add: add_def)
next
  case (Inr p)
  obtain r w' where up: "provider_add B p path (world s) = (r, w')"
    by (cases "provider_add B p path (world s)")
  show ?thesis
  proof (cases r)
    case (Inl e)
    with assms Inr up show ?thesis by (simp add: add_def Let_def)
  next
    case r: (Inr g)
    show ?thesis
    proof (cases "db s")
      case None
      with assms Inr up r show ?thesis by (simp add: add_def Let_def)
    next
      case (Some d)
      with assms Inr up r show ?thesis by (auto simp: add_def Let_def)
    qed
  qed
qed

section \<open>Deleting\<close>

text \<open>
  C1. For a tracked name whose owning backend is registered, \<^verbatim>\<open>delete\<close> looks the
  record up, then calls the backend's remove, and only after a remove that
  returned does it call the metadata store's delete. The outcome of \<^verbatim>\<open>delete\<close> is
  the outcome \<open>r\<close> of the remove: when the remove raised, the metadata store is the
  one from before the call (so the record is still found by \<^verbatim>\<open>get\<close> and listed by
  \<^verbatim>\<open>ls\<close>, and the delete can be tried again), and no store call follows the remove.
\<close>

theorem delete_remove_then_metadata:
  assumes "db s = Some d" and "db_get d n = Some f"
    and "providers s (service f) = Some p"
    and "provider_delete B p f (world s) = (r, w')"
  shows "fst (delete B n s) = r
       \<and> calls (snd (delete B n s)) =
           calls s @ DbGet n # StorageDelete p f # (if isl r then [] else [DbDelete f])
       \<and> db (snd (delete B n s)) = (if isl r then db s else Some (db_delete d f))
       \<and> world (snd (delete B n s)) = w'"
  using assms by (cases r) (simp_all add: delete_def Let_def)

theorem delete_remove_then_metadata_witness:
  "fst (delete demo_ops ''notes.txt'' (demo_data [])) = Inl (StorageError ''no such object'')
   \<and> db (snd (delete demo_ops ''notes.txt'' (demo_data []))) = Some demo_db
   \<and> db_get demo_db ''notes.txt'' = Some notes_txt
   \<and> calls (snd (delete demo_ops ''notes.txt'' (demo_data []))) =
       [DbGet ''notes.txt'', StorageDelete demo_local notes_txt]"
  using delete_remove_then_metadata [of "demo_data []" demo_db "''notes.txt''" notes_txt
      demo_local demo_ops "Inl (StorageError ''no such object'')" "[]"]
  by (simp add: demo_defs)

section \<open>Names that are not tracked\<close>

text \<open>
  C2. For a name that the metadata store does not hold, \<^verbatim>\<open>get\<close> prints the
  not-found message and ends the invocation with \<^verbatim>\<open>SystemExit\<close>, and \<^verbatim>\<open>delete\<close>
  raises an \<^verbatim>\<open>Exception\<close> naming the file. In both, the only collaborator called
  is the store's lookup: the log gains \<open>DbGet n\<close> and nothing else, and the world
  of the backends is untouched.
\<close>

theorem missing_name_not_found:
  assumes "db s = Some d" and "db_get d n = None"
  shows "get B n dest s =
           (Inl SystemExit,
            s\<lparr>calls := calls s @ [DbGet n],
              stdout := stdout s @
                [''Requested file not found. Use `ls` to see a list of file names.'']\<rparr>)
       \<and> delete B n s =
           (Inl (Exception (n @ '' not found in the database.'')),
            s\<lparr>calls := calls s @ [DbGet n]\<rparr>)"
  using assms by (simp add: get_def delete_def Let_def)

theorem missing_name_not_found_witness:
  "fst (get demo_ops ''todo.txt'' PyNone (demo_data [''notes.txt''])) = Inl SystemExit
   \<and> fst (delete demo_ops ''todo.txt'' (demo_data [''notes.txt''])) =
       Inl (Exception ''todo.txt not found in the database.'')
   \<and> calls (snd (get demo_ops ''todo.txt'' PyNone (demo_data [''notes.txt'']))) =
       [DbGet ''todo.txt'']
   \<and> calls (snd (delete demo_ops ''todo.txt'' (demo_data [''notes.txt'']))) =
       [DbGet ''todo.txt'']"
  using missing_name_not_found [of "demo_data [''notes.txt'']" demo_db "''todo.txt''"
      demo_ops PyNone]
  by (simp add: demo_defs)

section \<open>Adding\<close>

text \<open>
  C3. Whatever backend \<^verbatim>\<open>add\<close> resolves (a named one, or the default), the first
  collaborator it calls is that backend's upload; the metadata store's add comes
  after it, and only when the upload returned a record. When the upload raised,
  \<^verbatim>\<open>add\<close> ends with that exception and the metadata store is the one from before
  the call.
\<close>

theorem add_upload_before_metadata:
  assumes "providers_getitem (providers s) (py_or provider (PyStr ''default'')) = Inr p"
    and "provider_add B p path (world s) = (r, w')"
  shows "calls (snd (add B provider path s)) =
           calls s @ StorageAdd p path #
             (case r of Inl e \<Rightarrow> []
              | Inr f \<Rightarrow> (case db s of None \<Rightarrow> [] | Some d \<Rightarrow> [DbAdd f]))
       \<and> db (snd (add B provider path s)) =
           (case r of Inl e \<Rightarrow> db s | Inr f \<Rightarrow> map_option (\<lambda>d. db_add d f) (db s))
       \<and> fst (add B provider path s) =
           (case r of Inl e \<Rightarrow> Inl e
            | Inr f \<Rightarrow> (case db s of None \<Rightarrow> Inl (AttributeError ''add'') | Some d \<Rightarrow> Inr f))"
  using assms by (cases r; cases "db s") (simp_all add: add_def Let_def)

theorem add_upload_before_metadata_witness:
  "fst (add demo_ops PyNone [] (demo_data [])) = Inl (StorageError ''no such file'')
   \<and> db (snd (add demo_ops PyNone [] (demo_data []))) = db (demo_data [])
   \<and> calls (snd (add demo_ops PyNone [] (demo_data []))) = [StorageAdd demo_local []]"
  using add_upload_before_metadata [of "demo_data []" PyNone demo_local demo_ops "[]"
      "Inl (StorageError ''no such file'')" "[]"]
  by (simp add: demo_defs py_or_def)

text \<open>
  C4. After a \<^verbatim>\<open>config\<close> that returned on a fresh object, an \<^verbatim>\<open>add\<close> that names no
  backend uploads through the provider registered under the configured
  \<^verbatim>\<open>default.service\<close> name; with providers that keep the upload contract of the
  spec, the record that a successful \<^verbatim>\<open>add\<close> returns has that name in its
  \<^verbatim>\<open>service\<close> field.
\<close>

theorem add_default_backend:
  assumes contract: "upload_sets_backend B"
    and cfg: "config c stored (Data_init w) = (Inr (), s)"
    and added: "add B PyNone path s = (Inr f, s')"
  shows "conf_get c ''default.service'' = PyStr (service f)
       \<and> (\<exists>p. providers s (service f) = Some p
              \<and> calls s' = calls s @ [StorageAdd p path, DbAdd f])"
proof -
  let ?r = "config_azure c (config_local c (config_db c stored ((Data_init w)\<lparr>conf := c\<rparr>)))"
  from cfg have dflt: "config_default c (snd ?r) = (Inr (), s)"
    unfolding config_by_azure by (cases "fst ?r") simp_all
  from config_default_Inr [OF dflt] obtain k p
    where k: "conf_get c ''default.service'' = PyStr k"
      and p: "providers (snd ?r) k = Some p"
      and s: "s = (snd ?r)\<lparr>providers := (providers (snd ?r))(''default'' \<mapsto> p)\<rparr>"
    by blast
  from config_registry_ids [OF p] have id: "backend_id p = k" .
  then have "k \<noteq> ''default''" by (cases p) auto
  with p s have reg: "providers s k = Some p" and reg_default: "providers s ''default'' = Some p"
    by simp_all
  from add_Inr [OF added] reg_default obtain w'
    where up: "provider_add B p path (world s) = (Inr f, w')"
      and log: "calls s' = calls s @ [StorageAdd p path, DbAdd f]"
    by (auto simp: py_or_def)
  from contract up have "service f = backend_id p"
    unfolding upload_sets_backend_def by blast
  with id k reg log show ?thesis by auto
qed

theorem add_default_backend_witness:
  "upload_sets_backend demo_ops
   \<and> config demo_conf [notes_txt, report_pdf] (Data_init []) = (Inr (), demo_data [])
   \<and> fst (add demo_ops PyNone ''todo.txt'' (demo_data [])) =
       Inr \<lparr>name = ''todo.txt'', service = ''local'', size_f = 42, url = ''/tmp/store/todo.txt''\<rparr>
   \<and> conf_get demo_conf ''default.service'' = PyStr ''local''"
proof -
  let ?f = "\<lparr>name = ''todo.txt'', service = ''local'', size_f = 42, url = ''/tmp/store/todo.txt''\<rparr>"
  let ?run = "add demo_ops PyNone ''todo.txt'' (demo_data [])"
  have res: "fst ?run = Inr ?f"
    by (simp add: add_def py_or_def Let_def demo_defs)
  then have "?run = (Inr ?f, snd ?run)"
    by (simp add: prod_eq_iff)
  from add_default_backend [OF demo_ops_contract config_demo this] res
  show ?thesis
    by (simp add: demo_ops_contract config_demo)
qed

section \<open>Backends that are not configured\<close>

text \<open>
  C5. The name that \<^verbatim>\<open>add\<close> asks the registry for is the given one, or
  \<^verbatim>\<open>'default'\<close> when none is given (an empty name counts as none). When the
  registry has no backend under that name, \<^verbatim>\<open>add\<close> ends with the \<^verbatim>\<open>KeyError\<close> of the
  lookup and the object, the metadata store with it, is as before: nothing was
  called. When the configured \<^verbatim>\<open>default.service\<close> names a backend that \<^verbatim>\<open>config\<close>
  has not registered, \<^verbatim>\<open>config\<close> fails: with the \<^verbatim>\<open>KeyError\<close> of that name, or
  earlier with the \<^verbatim>\<open>AttributeError\<close> of an Azure section that is not a section.
\<close>

theorem unconfigured_backend_fails:
  "(py_or provider (PyStr ''default'') = PyStr k \<longrightarrow> providers s k = None \<longrightarrow>
      add B provider path s = (Inl (KeyError (PyStr k)), s))
 \<and> (conf_get c ''default.service'' = PyStr k \<longrightarrow>
      providers (snd (config c stored s0)) k = None \<longrightarrow>
      fst (config c stored s0) = Inl (KeyError (PyStr k))
      \<or> fst (config c stored s0) = Inl (AttributeError ''get''))"
proof (intro conjI impI)
  assume "py_or provider (PyStr ''default'') = PyStr k" and "providers s k = None"
  then show "add B provider path s = (Inl (KeyError (PyStr k)), s)"
    by (simp add: add_def)
next
  let ?r = "config_azure c (config_local c (config_db c stored (s0\<lparr>conf := c\<rparr>)))"
  assume k: "conf_get c ''default.service'' = PyStr k"
    and miss: "providers (snd (config c stored s0)) k = None"
  show "fst (config c stored s0) = Inl (KeyError (PyStr k))
      \<or> fst (config c stored s0) = Inl (AttributeError ''get'')"
  proof (cases "fst ?r")
    case (Inl e)
    with config_azure_result [of c "config_local c (config_db c stored (s0\<lparr>conf := c\<rparr>))"]
    show ?thesis by (simp add: config_by_azure)
  next
    case (Inr u)
    then have cfg: "config c stored s0 = config_default c (snd ?r)"
      by (simp add: config_by_azure)
    show ?thesis
    proof (cases "providers (snd ?r) k")
      case None
      with k show ?thesis by (simp add: cfg config_default_def)
    next
      case (Some p)
      with k have "providers (snd (config c stored s0)) = (providers (snd ?r))(''default'' \<mapsto> p)"
        by (simp add: cfg config_default_def)
      with Some miss show ?thesis by (simp split: if_splits)
    qed
  qed
qed

theorem unconfigured_backend_fails_witness:
  "add demo_ops (PyStr ''azure'') ''notes.txt'' (demo_data []) =
     (Inl (KeyError (PyStr ''azure'')), demo_data [])
   \<and> fst (config conf_azure_default [] (Data_init ([] :: string list))) =
       Inl (KeyError (PyStr ''azure''))"
proof -
  have miss: "providers (snd (config conf_azure_default [] (Data_init ([] :: string list)))) ''azure'' = None"
    by (simp add: config_steps conf_get_def conf_azure_default_def Data_init_def Let_def)
  have no_attr: "fst (config conf_azure_default [] (Data_init ([] :: string list))) \<noteq>
      Inl (AttributeError ''get'')"
    by (simp add: config_steps conf_get_def conf_azure_default_def Data_init_def Let_def)
  from unconfigured_backend_fails [of "PyStr ''azure''" "''azure''" "demo_data []" demo_ops
      "''notes.txt''" conf_azure_default "[]" "Data_init ([] :: string list)"] miss no_attr
  show ?thesis
    by (simp add: py_or_def demo_data_def conf_get_def conf_azure_default_def)
qed

text \<open>
  C6. For a tracked record whose stored backend identifier is not a key of the
  registry, \<^verbatim>\<open>get\<close> and \<^verbatim>\<open>delete\<close> both end with the \<^verbatim>\<open>KeyError\<close> of the failed
  lookup. Nothing but the store's lookup has been called: no backend is called,
  and in \<^verbatim>\<open>delete\<close> the metadata entry stays.
\<close>

theorem unresolved_backend_of_record:
  assumes "db s = Some d" and "db_get d n = Some f" and "providers s (service f) = None"
  shows "get B n dest s =
           (Inl (KeyError (PyStr (service f))), s\<lparr>calls := calls s @ [DbGet n]\<rparr>)
       \<and> delete B n s =
           (Inl (KeyError (PyStr (service f))), s\<lparr>calls := calls s @ [DbGet n]\<rparr>)"
  using assms by (simp add: get_def delete_def Let_def)

theorem unresolved_backend_of_record_witness:
  "fst (get demo_ops ''report.pdf'' PyNone (demo_data [])) = Inl (KeyError (PyStr ''azure''))
   \<and> fst (delete demo_ops ''report.pdf'' (demo_data [])) = Inl (KeyError (PyStr ''azure''))
   \<and> db (snd (delete demo_ops ''report.pdf'' (demo_data []))) = Some demo_db
   \<and> calls (snd (delete demo_ops ''report.pdf'' (demo_data []))) = [DbGet ''report.pdf'']"
  using unresolved_backend_of_record [of "demo_data []" demo_db "''report.pdf''" report_pdf
      demo_ops PyNone]
  by (simp add: demo_defs)

section \<open>The registry that config builds\<close>

text \<open>
  C7. After \<^verbatim>\<open>config\<close> on a fresh object, whether it returned or raised, the
  registry has the key \<^verbatim>\<open>'local'\<close> exactly when the local storage-folder option is
  set, and the key \<^verbatim>\<open>'azure'\<close> exactly when the Azure section is there and both its
  storage account and its storage key options are set. "Set" is what the code
  tests: the value is true in Python's sense, that is neither absent nor empty.
  The container option does not occur in the condition.
\<close>

theorem registered_iff_options_set:
  "(providers (snd (config c stored (Data_init w))) ''local'' \<noteq> None
      \<longleftrightarrow> truthy (conf_get c ''service.local.CMDATA_STORAGE_FOLDER''))
 \<and> (providers (snd (config c stored (Data_init w))) ''azure'' \<noteq> None
      \<longleftrightarrow> (\<exists>d. conf_get c ''service.azure'' = PyDict d
             \<and> truthy (conf_get d ''credentials.AZURE_STORAGE_ACCOUNT'')
             \<and> truthy (conf_get d ''credentials.AZURE_STORAGE_KEY'')))"
proof -
  have init: "providers (config_db c stored ((Data_init w)\<lparr>conf := c\<rparr>)) = Map.empty"
    by (simp add: config_db_frame Data_init_def)
  show ?thesis
    by (cases "conf_get c ''service.azure''")
       (simp_all add: config_providers_other config_azure_providers config_local_providers init)
qed

theorem registered_iff_options_set_witness:
  "providers (snd (config conf_azure_default [] (Data_init ([] :: string list)))) ''local'' \<noteq> None
   \<and> providers (snd (config conf_azure_default [] (Data_init ([] :: string list)))) ''azure'' = None"
  using registered_iff_options_set [of conf_azure_default "[]" "[] :: string list"]
  by (simp add: conf_get_def conf_azure_default_def)

section \<open>Listing\<close>

text \<open>
  C8. With a metadata store in place, \<^verbatim>\<open>ls\<close> returns exactly the sequence that the
  store's \<^verbatim>\<open>list_files\<close> yields, and a second \<^verbatim>\<open>ls\<close> right after the first returns
  the same sequence.
\<close>

theorem ls_twice_same:
  assumes "db s = Some d"
  shows "fst (ls s) = Inr (db_list_files d) \<and> fst (ls (snd (ls s))) = fst (ls s)"
  using assms by (simp add: ls_result ls_db)

theorem ls_twice_same_witness:
  "fst (ls (demo_data [])) = Inr [notes_txt, report_pdf]
   \<and> fst (ls (snd (ls (demo_data [])))) = Inr [notes_txt, report_pdf]"
  using ls_twice_same [of "demo_data []" demo_db]
  by (simp add: demo_data_def demo_db_def db_list_files_def)

text \<open>
  C9, as the claim states it, fails: the rows are not all at the header's column
  widths. \<^verbatim>\<open>%-35s\<close> pads a value to 35 columns and never cuts one, so for a record
  with a name of 36 characters the header is 109 characters wide and the row 110,
  and where the header has SERVICE the row has the service shifted by one.
\<close>

theorem ls_rows_not_fixed_width_counterexample:
  "length (name minutes_md) = 36
   \<and> map length (stdout (snd (ls long_name_data))) = [109, 110]
   \<and> take 7 (drop 37 (stdout (snd (ls long_name_data)) ! 0)) = ''SERVICE''
   \<and> take 7 (drop 37 (stdout (snd (ls long_name_data)) ! 1)) = '' local ''"
proof -
  have "db long_name_data = Some long_name_db"
    by (simp add: long_name_data_def)
  from ls_stdout [OF this]
  have out: "stdout (snd (ls long_name_data)) =
    ['' FILE                                SERVICE    SIZE       URL                                               '',
     '' minutes-of-the-2018-board-meeting.md local      42         /tmp/store/minutes-of-the-2018-board-meeting.md   '']"
    by (simp add: long_name_data_def long_name_db_def db_list_files_def header_line minutes_line)
  show ?thesis
    unfolding out by (simp add: minutes_md_def)
qed

text \<open>
  C9, amended. With a metadata store in place, \<^verbatim>\<open>ls\<close> prints first the row of the
  column titles FILE, SERVICE, SIZE, URL, which is 109 characters wide, and then
  one row for each record, in the order in which the store lists them, every row
  made by \<^verbatim>\<open>_print_row\<close> with the same format as the header. The format pads each
  value to 35, 10, 10 and 50 columns and cuts none: a row is never narrower than
  the header, and it is as wide as the header exactly when the name, the service,
  the size and the URL each fit their column.
\<close>

theorem ls_prints_table:
  assumes "db s = Some d"
  shows "stdout (snd (ls s)) = stdout s @
           print_row_line (S ''FILE'') (S ''SERVICE'') (S ''SIZE'') (S ''URL'') #
           map (\<lambda>f. print_row_line (S (name f)) (S (service f)) (I (size_f f)) (S (url f)))
             (db_list_files d)
       \<and> length (print_row_line (S ''FILE'') (S ''SERVICE'') (S ''SIZE'') (S ''URL'')) = 109
       \<and> (\<forall>f \<in> set (db_list_files d).
             109 \<le> length (print_row_line (S (name f)) (S (service f)) (I (size_f f)) (S (url f)))
           \<and> (length (print_row_line (S (name f)) (S (service f)) (I (size_f f)) (S (url f))) = 109
                \<longleftrightarrow> length (name f) \<le> 35 \<and> length (service f) \<le> 10
                     \<and> length (str_int (size_f f)) \<le> 10 \<and> length (url f) \<le> 50))"
  using assms
  by (simp add: ls_stdout length_print_row_line length_print_row_line_iff)

theorem ls_prints_table_witness:
  "stdout (snd (ls (demo_data []))) =
    ['' FILE                                SERVICE    SIZE       URL                                               '',
     '' notes.txt                           local      42         /tmp/store/notes.txt                              '',
     '' report.pdf                          azure      1205       https://acct.blob.core.windows.net/cm/report.pdf  '']
   \<and> length (print_row_line (S (name notes_txt)) (S (service notes_txt)) (I (size_f notes_txt))
        (S (url notes_txt))) = 109
   \<and> length (print_row_line (S (name report_pdf)) (S (service report_pdf)) (I (size_f report_pdf))
        (S (url report_pdf))) = 109"
  using ls_prints_table [of "demo_data []" demo_db]
  by (simp add: demo_data_def demo_db_def db_list_files_def header_line notes_line report_line)

section \<open>Without a metadata store\<close>

text \<open>
  C10, as the claim states it, fails for \<^verbatim>\<open>add\<close>: with no \<^verbatim>\<open>default.db\<close> entry the
  store is unset, and an \<^verbatim>\<open>add\<close> that names the unconfigured backend
  \<^verbatim>\<open>'azure'\<close> ends with the \<^verbatim>\<open>KeyError\<close> of the registry lookup, not with an
  attribute error.
\<close>

theorem missing_store_add_counterexample:
  "conf_get conf_no_db ''default.db'' \<noteq> PyStr ''local''
   \<and> fst (config conf_no_db [] (Data_init ([] :: string list))) = Inr ()
   \<and> db (snd (config conf_no_db [] (Data_init ([] :: string list)))) = None
   \<and> fst (add demo_ops (PyStr ''azure'') ''notes.txt''
            (snd (config conf_no_db [] (Data_init ([] :: string list))))) =
       Inl (KeyError (PyStr ''azure''))"
  by (simp add: config_steps conf_get_def conf_no_db_def Data_init_def Let_def add_def py_or_def)

text \<open>
  C10, amended. When \<^verbatim>\<open>default.db\<close> is not \<^verbatim>\<open>'local'\<close> (or is absent), \<^verbatim>\<open>config\<close> on a
  fresh object leaves the metadata store unset, whether it returns or raises.
  Then \<^verbatim>\<open>ls\<close>, \<^verbatim>\<open>get\<close> and \<^verbatim>\<open>delete\<close> end with an \<^verbatim>\<open>AttributeError\<close> at once, the
  object unchanged. \<^verbatim>\<open>add\<close> goes to the registry and the backend first: it ends
  with the \<^verbatim>\<open>KeyError\<close> of a name that does not resolve, with the exception of an
  upload that failed, and with the \<^verbatim>\<open>AttributeError\<close> only after an upload that
  succeeded.
\<close>

theorem missing_store_attribute_error:
  assumes "conf_get c ''default.db'' \<noteq> PyStr ''local''"
    and "s = snd (config c stored (Data_init w))"
  shows "db s = None
       \<and> ls s = (Inl (AttributeError ''list_files''), s)
       \<and> get B n dest s = (Inl (AttributeError ''get''), s)
       \<and> delete B n s = (Inl (AttributeError ''get''), s)
       \<and> fst (add B provider path s) =
           (case providers_getitem (providers s) (py_or provider (PyStr ''default'')) of
              Inl e \<Rightarrow> Inl e
            | Inr p \<Rightarrow> (case fst (provider_add B p path (world s)) of
                         Inl e \<Rightarrow> Inl e
                       | Inr f \<Rightarrow> Inl (AttributeError ''add'')))"
proof -
  from assms have none: "db s = None"
    by (simp add: config_db_after Data_init_def)
  have "fst (add B provider path s) =
           (case providers_getitem (providers s) (py_or provider (PyStr ''default'')) of
              Inl e \<Rightarrow> Inl e
            | Inr p \<Rightarrow> (case fst (provider_add B p path (world s)) of
                         Inl e \<Rightarrow> Inl e
                       | Inr f \<Rightarrow> Inl (AttributeError ''add'')))"
    using none by (simp add: add_def Let_def split: sum.splits prod.splits)
  with none show ?thesis
    by (simp add: ls_def get_def delete_def)
qed

theorem missing_store_attribute_error_witness:
  "conf_get conf_no_db ''default.db'' \<noteq> PyStr ''local''
   \<and> fst (ls (snd (config conf_no_db [] (Data_init ([] :: string list))))) =
       Inl (AttributeError ''list_files'')
   \<and> fst (get demo_ops ''notes.txt'' PyNone (snd (config conf_no_db [] (Data_init [])))) =
       Inl (AttributeError ''get'')
   \<and> fst (delete demo_ops ''notes.txt'' (snd (config conf_no_db [] (Data_init [])))) =
       Inl (AttributeError ''get'')
   \<and> fst (add demo_ops PyNone ''notes.txt'' (snd (config conf_no_db [] (Data_init [])))) =
       Inl (AttributeError ''add'')"
proof -
  have db: "conf_get conf_no_db ''default.db'' \<noteq> PyStr ''local''"
    by (simp add: conf_get_def conf_no_db_def)
  have reg: "providers (snd (config conf_no_db [] (Data_init ([] :: string list)))) ''default'' =
      Some demo_local"
    by (simp add: config_steps conf_get_def conf_no_db_def Data_init_def Let_def demo_local_def)
  from missing_store_attribute_error [OF db refl, of "[]" "[]" demo_ops "''notes.txt''" PyNone
      PyNone "''notes.txt''"] db reg
  show ?thesis
    by (simp add: py_or_def demo_ops_def)
qed

end
